theory Spec2Isabelle
  imports Complex_Main "HOL-Library.Word"
begin

section \<open>Strings of the host language\<close>

text \<open>
  A JavaScript string is a sequence of 16-bit code units. String equality (\<open>===\<close>, and
  the SameValueZero comparison of \<open>Set\<close>) is equality of these sequences.
  \<open>js\<close> writes an ASCII literal as such a sequence.
\<close>

type_synonym jsstring = "16 word list"

definition js :: "string \<Rightarrow> jsstring" where
  "js s = map of_char s"

text \<open>
  \<open>String.prototype.trim\<close> removes the code units of WhiteSpace and LineTerminator
  from both ends: TAB, LF, VT, FF, CR, SP, NBSP, U+1680, U+2000..U+200A, U+2028, U+2029,
  U+202F, U+205F, U+3000 and U+FEFF.
\<close>

definition isWhiteSpace :: "16 word \<Rightarrow> bool" where
  "isWhiteSpace c \<longleftrightarrow>
     c = 0x09 \<or> c = 0x0A \<or> c = 0x0B \<or> c = 0x0C \<or> c = 0x0D \<or> c = 0x20 \<or> c = 0xA0 \<or>
     c = 0x1680 \<or> (0x2000 \<le> c \<and> c \<le> 0x200A) \<or> c = 0x2028 \<or> c = 0x2029 \<or>
     c = 0x202F \<or> c = 0x205F \<or> c = 0x3000 \<or> c = 0xFEFF"

definition trim :: "jsstring \<Rightarrow> jsstring" where
  "trim s = rev (dropWhile isWhiteSpace (rev (dropWhile isWhiteSpace s)))"

section \<open>Data model (interfaces \<open>Goal\<close> and \<open>StudyPlan\<close>)\<close>

record Goal =
  id' :: jsstring
  description :: jsstring
  targetDate :: "jsstring option"
  completed :: bool

record StudyPlan =
  userId :: jsstring
  goals :: "Goal list"
  subjects :: "jsstring list"
  lastUpdated :: jsstring

text \<open>The exceptions that the modelled code can meet.\<close>

datatype exn = RangeError | SyntaxError | SecurityError | QuotaExceededError

section \<open>Component state\<close>

text \<open>
  The Study Planner part of the state of the component \<open>LearnAI\<close>: one field for each
  \<open>useState\<close> cell that the planner reads or writes. \<open>studyPlan\<close> is
  \<open>StudyPlan | null\<close>.
\<close>

record store =
  studyPlan :: "StudyPlan option"
  newGoalDescription :: jsstring
  newGoalTargetDate :: jsstring
  newSubject :: jsstring
  studyPlannerError :: "jsstring option"
  loading :: bool

text \<open>The values of the \<open>useState\<close> initialisers.\<close>

definition initialStore :: store where
  "initialStore =
     \<lparr>studyPlan = None, newGoalDescription = [], newGoalTargetDate = [], newSubject = [],
      studyPlannerError = None, loading = False\<rparr>"

text \<open>\<open>const userId = 'localUser123'\<close> and the storage key built from it.\<close>

definition fixedUserId :: jsstring where
  "fixedUserId = js ''localUser123''"

definition localStorageKey :: jsstring where
  "localStorageKey = js ''studyPlan_'' @ fixedUserId"

text \<open>
  The object literal \<open>{ userId: userId, goals: [], subjects: [], lastUpdated: new
  Date().toISOString() }\<close>, which the load effect names \<open>defaultPlan\<close> and every
  updater repeats after \<open>prevPlan ||\<close>. The current time is an input.
\<close>

definition defaultPlan :: "jsstring \<Rightarrow> StudyPlan" where
  "defaultPlan now = \<lparr>userId = fixedUserId, goals = [], subjects = [], lastUpdated = now\<rparr>"

text \<open>\<open>setStudyPlan\<close> with an updater function: the updater receives the latest state.\<close>

definition setStudyPlan :: "(StudyPlan option \<Rightarrow> StudyPlan option) \<Rightarrow> store \<Rightarrow> store" where
  "setStudyPlan f st = st\<lparr>studyPlan := f (studyPlan st)\<rparr>"

text \<open>\<open>prevPlan || { userId: userId, goals: [], subjects: [], lastUpdated: ... }\<close>\<close>

definition orDefault :: "StudyPlan option \<Rightarrow> jsstring \<Rightarrow> StudyPlan" where
  "orDefault prevPlan now = (case prevPlan of Some p \<Rightarrow> p | None \<Rightarrow> defaultPlan now)"

text \<open>
  \<open>Array.from(new Set(xs))\<close>: the constructor adds the elements in order, \<open>add\<close>
  appends a value that is not yet present, and iteration follows insertion order.
\<close>

definition setAdd :: "'a list \<Rightarrow> 'a \<Rightarrow> 'a list" where
  "setAdd s x = (if x \<in> set s then s else s @ [x])"

definition arrayFromSet :: "'a list \<Rightarrow> 'a list" where
  "arrayFromSet xs = foldl setAdd [] xs"

section \<open>Handlers\<close>

text \<open>
  \<open>handleAddGoal\<close>. The inputs from outside the component are the conversion
  \<open>toISO s\<close> = \<open>new Date(s).toISOString()\<close> (which throws a RangeError on an
  invalid date), the value \<open>uuid\<close> returned by \<open>uuidv4()\<close>, and the current time
  \<open>now\<close> as an ISO string. An exception inside \<open>try\<close> goes to \<open>catch\<close>, which
  sets the error string; \<open>finally\<close> resets \<open>loading\<close>.
\<close>

definition handleAddGoal ::
  "(jsstring \<Rightarrow> exn + jsstring) \<Rightarrow> jsstring \<Rightarrow> jsstring \<Rightarrow> store \<Rightarrow> store" where
  "handleAddGoal toISO uuid now st =
     (if trim (newGoalDescription st) = [] then st
      else
        (case (if newGoalTargetDate st \<noteq> []
               then map_sum (\<lambda>e. e) Some (toISO (newGoalTargetDate st))
               else Inr None) of
           Inl err \<Rightarrow>
             st\<lparr>studyPlannerError := Some (js ''Failed to add goal.''), loading := False\<rparr>
         | Inr date \<Rightarrow>
             (let newGoal = \<lparr>id' = uuid, description = trim (newGoalDescription st),
                             targetDate = date, completed = False\<rparr>
              in (setStudyPlan
                    (\<lambda>prevPlan.
                       let currentPlan = orDefault prevPlan now
                       in Some (currentPlan\<lparr>goals := goals currentPlan @ [newGoal],
                                             lastUpdated := now\<rparr>))
                    (st\<lparr>loading := True\<rparr>))
                 \<lparr>newGoalDescription := [], newGoalTargetDate := [], loading := False\<rparr>)))"

text \<open>
  \<open>handleToggleGoalCompletion\<close>: \<open>updatedGoals\<close> is computed from the
  \<open>studyPlan\<close> of the render, the updater starts from the latest state; handlers run
  one at a time, each on the render of the state its predecessor left, so both are
  \<open>studyPlan st\<close>.
\<close>

definition handleToggleGoalCompletion :: "jsstring \<Rightarrow> jsstring \<Rightarrow> store \<Rightarrow> store" where
  "handleToggleGoalCompletion goalId now st =
     (case studyPlan st of
        None \<Rightarrow> st
      | Some sp \<Rightarrow>
          (let updatedGoals =
                 map (\<lambda>goal. if id' goal = goalId
                              then goal\<lparr>completed := \<not> completed goal\<rparr> else goal)
                     (goals sp)
           in (setStudyPlan
                 (\<lambda>prevPlan.
                    let currentPlan = orDefault prevPlan now
                    in Some (currentPlan\<lparr>goals := updatedGoals, lastUpdated := now\<rparr>))
                 (st\<lparr>loading := True\<rparr>))
              \<lparr>loading := False\<rparr>))"

definition handleDeleteGoal :: "jsstring \<Rightarrow> jsstring \<Rightarrow> store \<Rightarrow> store" where
  "handleDeleteGoal goalId now st =
     (case studyPlan st of
        None \<Rightarrow> st
      | Some sp \<Rightarrow>
          (let updatedGoals = filter (\<lambda>goal. id' goal \<noteq> goalId) (goals sp)
           in (setStudyPlan
                 (\<lambda>prevPlan.
                    let currentPlan = orDefault prevPlan now
                    in Some (currentPlan\<lparr>goals := updatedGoals, lastUpdated := now\<rparr>))
                 (st\<lparr>loading := True\<rparr>))
              \<lparr>loading := False\<rparr>))"

text \<open>\<open>studyPlan?.subjects || []\<close>\<close>

definition currentSubjects :: "store \<Rightarrow> jsstring list" where
  "currentSubjects st = (case studyPlan st of Some sp \<Rightarrow> subjects sp | None \<Rightarrow> [])"

definition handleAddSubject :: "jsstring \<Rightarrow> store \<Rightarrow> store" where
  "handleAddSubject now st =
     (if trim (newSubject st) = [] then st
      else
        (let updatedSubjects = currentSubjects st @ [trim (newSubject st)]
         in (setStudyPlan
               (\<lambda>prevPlan.
                  let currentPlan = orDefault prevPlan now
                  in Some (currentPlan\<lparr>subjects := arrayFromSet updatedSubjects,
                                        lastUpdated := now\<rparr>))
               (st\<lparr>loading := True\<rparr>))
            \<lparr>newSubject := [], loading := False\<rparr>))"

definition handleDeleteSubject :: "jsstring \<Rightarrow> jsstring \<Rightarrow> store \<Rightarrow> store" where
  "handleDeleteSubject subjectToDelete now st =
     (case studyPlan st of
        None \<Rightarrow> st
      | Some sp \<Rightarrow>
          (let updatedSubjects =
                 filter (\<lambda>subject. subject \<noteq> subjectToDelete) (subjects sp)
           in (setStudyPlan
                 (\<lambda>prevPlan.
                    let currentPlan = orDefault prevPlan now
                    in Some (currentPlan\<lparr>subjects := updatedSubjects, lastUpdated := now\<rparr>))
                 (st\<lparr>loading := True\<rparr>))
              \<lparr>loading := False\<rparr>))"

text \<open>
  The operations as the specification names them. The two forms are submitted after
  their \<open>onChange\<close> handlers have stored the typed text in the state.
\<close>

definition addGoal ::
  "(jsstring \<Rightarrow> exn + jsstring) \<Rightarrow> jsstring \<Rightarrow> jsstring \<Rightarrow> jsstring \<Rightarrow> jsstring \<Rightarrow> store \<Rightarrow> store"
  where
  "addGoal toISO descr date uuid now st =
     handleAddGoal toISO uuid now (st\<lparr>newGoalDescription := descr, newGoalTargetDate := date\<rparr>)"

definition toggleGoal :: "jsstring \<Rightarrow> jsstring \<Rightarrow> store \<Rightarrow> store" where
  "toggleGoal goalId now st = handleToggleGoalCompletion goalId now st"

definition deleteGoal :: "jsstring \<Rightarrow> jsstring \<Rightarrow> store \<Rightarrow> store" where
  "deleteGoal goalId now st = handleDeleteGoal goalId now st"

definition addSubject :: "jsstring \<Rightarrow> jsstring \<Rightarrow> store \<Rightarrow> store" where
  "addSubject name now st = handleAddSubject now (st\<lparr>newSubject := name\<rparr>)"

definition deleteSubject :: "jsstring \<Rightarrow> jsstring \<Rightarrow> store \<Rightarrow> store" where
  "deleteSubject name now st = handleDeleteSubject name now st"

section \<open>The goals on display\<close>

text \<open>\<open>studyPlan?.goals || []\<close>, computed in the body of the component.\<close>

definition currentGoals :: "store \<Rightarrow> Goal list" where
  "currentGoals st = (case studyPlan st of Some sp \<Rightarrow> goals sp | None \<Rightarrow> [])"

section \<open>Sequences of goal operations\<close>

text \<open>
  One call of the goal operations, with the values it takes from outside: the typed
  description and date, the identifier that \<open>uuidv4()\<close> returns, and the time.
\<close>

datatype goalOp =
    AddGoal jsstring jsstring jsstring jsstring
  | ToggleGoal jsstring jsstring
  | DeleteGoal jsstring jsstring

fun applyOp :: "(jsstring \<Rightarrow> exn + jsstring) \<Rightarrow> goalOp \<Rightarrow> store \<Rightarrow> store" where
  "applyOp toISO (AddGoal descr date uuid now) st = addGoal toISO descr date uuid now st"
| "applyOp toISO (ToggleGoal goalId now) st = toggleGoal goalId now st"
| "applyOp toISO (DeleteGoal goalId now) st = deleteGoal goalId now st"

fun run :: "(jsstring \<Rightarrow> exn + jsstring) \<Rightarrow> goalOp list \<Rightarrow> store \<Rightarrow> store" where
  "run toISO [] st = st"
| "run toISO (x # xs) st = run toISO xs (applyOp toISO x st)"

text \<open>
  What a sequence of calls should leave, in the words of the specification and without
  the handlers. An \<open>addGoal\<close> call adds nothing when its description trims to
  empty. Otherwise it adds one goal: the generated identifier, the trimmed description,
  \<open>completed = false\<close>, and as target date \<open>null\<close> when the date is omitted and
  the ISO string of the date when it is given; a call whose date is given and does not
  convert fails and adds nothing. \<open>toggleGoal\<close> and \<open>deleteGoal\<close> add nothing.
  Of the goals present when the calls \<open>rest\<close> begin, those stay whose identifier no
  later \<open>deleteGoal\<close> names, in their order, and each has its flag changed as often
  as later \<open>toggleGoal\<close> calls name its identifier.
\<close>

fun goalsAdded :: "(jsstring \<Rightarrow> exn + jsstring) \<Rightarrow> goalOp \<Rightarrow> Goal list" where
  "goalsAdded toISO (AddGoal descr date uuid now) =
     (if trim descr = [] then []
      else if date = [] then
        [\<lparr>id' = uuid, description = trim descr, targetDate = None, completed = False\<rparr>]
      else
        (case toISO date of
           Inr isoText \<Rightarrow>
             [\<lparr>id' = uuid, description = trim descr, targetDate = Some isoText,
               completed = False\<rparr>]
         | Inl err \<Rightarrow> []))"
| "goalsAdded toISO (ToggleGoal goalId now) = []"
| "goalsAdded toISO (DeleteGoal goalId now) = []"

fun togglesOf :: "jsstring \<Rightarrow> goalOp \<Rightarrow> bool" where
  "togglesOf g (ToggleGoal goalId now) = (goalId = g)"
| "togglesOf g (AddGoal descr date uuid now) = False"
| "togglesOf g (DeleteGoal goalId now) = False"

fun deletesOf :: "jsstring \<Rightarrow> goalOp \<Rightarrow> bool" where
  "deletesOf g (DeleteGoal goalId now) = (goalId = g)"
| "deletesOf g (AddGoal descr date uuid now) = False"
| "deletesOf g (ToggleGoal goalId now) = False"

definition toggleCount :: "jsstring \<Rightarrow> goalOp list \<Rightarrow> nat" where
  "toggleCount g rest = length (filter (togglesOf g) rest)"

definition deletedLater :: "jsstring \<Rightarrow> goalOp list \<Rightarrow> bool" where
  "deletedLater g rest = list_ex (deletesOf g) rest"

definition survivors :: "goalOp list \<Rightarrow> Goal list \<Rightarrow> Goal list" where
  "survivors rest gs =
     map (\<lambda>g. g\<lparr>completed := (completed g \<noteq> odd (toggleCount (id' g) rest))\<rparr>)
         (filter (\<lambda>g. \<not> deletedLater (id' g) rest) gs)"

definition expectedGoals ::
  "(jsstring \<Rightarrow> exn + jsstring) \<Rightarrow> Goal list \<Rightarrow> goalOp list \<Rightarrow> Goal list" where
  "expectedGoals toISO gs0 xs =
     survivors xs gs0 @
     concat (map (\<lambda>i. survivors (drop (Suc i) xs) (goalsAdded toISO (xs ! i))) [0..<length xs])"

section \<open>A date conversion for the concrete instances\<close>

text \<open>
  \<open>new Date(s).toISOString()\<close> on the value format of the form's date input,
  \<open>YYYY-MM-DD\<close> with a calendar date: the date is read as UTC midnight. A string of
  any other shape is taken as an invalid date here, on which \<open>toISOString\<close> throws a
  RangeError. The theorems below hold for every conversion; this one serves the concrete
  instances.
\<close>

definition isDigit :: "16 word \<Rightarrow> bool" where
  "isDigit c \<longleftrightarrow> 0x30 \<le> c \<and> c \<le> 0x39"

definition digitValue :: "16 word \<Rightarrow> nat" where
  "digitValue c = unat c - 48"

definition isLeapYear :: "nat \<Rightarrow> bool" where
  "isLeapYear y \<longleftrightarrow> (y mod 4 = 0 \<and> y mod 100 \<noteq> 0) \<or> y mod 400 = 0"

definition daysInMonth :: "nat \<Rightarrow> nat \<Rightarrow> nat" where
  "daysInMonth y m =
     (if m = 2 then (if isLeapYear y then 29 else 28)
      else if m = 4 \<or> m = 6 \<or> m = 9 \<or> m = 11 then 30 else 31)"

definition dateInputToISO :: "jsstring \<Rightarrow> exn + jsstring" where
  "dateInputToISO s =
     (case s of
        [y1, y2, y3, y4, h1, m1, m2, h2, d1, d2] \<Rightarrow>
          (let y = ((digitValue y1 * 10 + digitValue y2) * 10 + digitValue y3) * 10 + digitValue y4;
               m = digitValue m1 * 10 + digitValue m2;
               d = digitValue d1 * 10 + digitValue d2
           in if list_all isDigit [y1, y2, y3, y4, m1, m2, d1, d2] \<and> h1 = 0x2D \<and> h2 = 0x2D
                 \<and> 1 \<le> m \<and> m \<le> 12 \<and> 1 \<le> d \<and> d \<le> daysInMonth y m
              then Inr (s @ js ''T00:00:00.000Z'')
              else Inl RangeError)
      | _ \<Rightarrow> Inl RangeError)"

section \<open>The persisted text: \<open>JSON.stringify\<close> and \<open>JSON.parse\<close>\<close>

text \<open>
  \<open>JSON.stringify\<close> of a plan object, without indentation. The properties come in
  creation order, which the object literals of the component fix and the spread
  \<open>{...currentPlan, goals: ..., lastUpdated: ...}\<close> keeps. A string is quoted by
  QuoteJSONString: short escapes for backspace, tab, line feed, form feed, carriage
  return, the quote and the backslash, \<open>\uXXXX\<close> in lowercase hexadecimal for the other
  code units below U+0020 and for a surrogate that is not part of a pair, everything
  else as it is.
\<close>

definition hexDigit :: "nat \<Rightarrow> 16 word" where
  "hexDigit d = (if d < 10 then of_nat (48 + d) else of_nat (87 + d))"

definition unicodeEscape :: "16 word \<Rightarrow> jsstring" where
  "unicodeEscape c =
     [0x5C, 0x75, hexDigit (unat c div 4096 mod 16), hexDigit (unat c div 256 mod 16),
      hexDigit (unat c div 16 mod 16), hexDigit (unat c mod 16)]"

definition isLeadingSurrogate :: "16 word \<Rightarrow> bool" where
  "isLeadingSurrogate c \<longleftrightarrow> 0xD800 \<le> c \<and> c \<le> 0xDBFF"

definition isTrailingSurrogate :: "16 word \<Rightarrow> bool" where
  "isTrailingSurrogate c \<longleftrightarrow> 0xDC00 \<le> c \<and> c \<le> 0xDFFF"

definition quoteUnit :: "16 word \<Rightarrow> jsstring" where
  "quoteUnit c =
     (if c = 0x08 then [0x5C, 0x62]
      else if c = 0x09 then [0x5C, 0x74]
      else if c = 0x0A then [0x5C, 0x6E]
      else if c = 0x0C then [0x5C, 0x66]
      else if c = 0x0D then [0x5C, 0x72]
      else if c = 0x22 then [0x5C, 0x22]
      else if c = 0x5C then [0x5C, 0x5C]
      else if c < 0x20 \<or> isLeadingSurrogate c \<or> isTrailingSurrogate c then unicodeEscape c
      else [c])"

fun quoteChars :: "jsstring \<Rightarrow> jsstring" where
  "quoteChars [] = []"
| "quoteChars [c] = quoteUnit c"
| "quoteChars (c # d # cs) =
     (if isLeadingSurrogate c \<and> isTrailingSurrogate d then c # d # quoteChars cs
      else quoteUnit c @ quoteChars (d # cs))"

definition QuoteJSONString :: "jsstring \<Rightarrow> jsstring" where
  "QuoteJSONString s = 0x22 # quoteChars s @ [0x22]"

fun joinComma :: "jsstring list \<Rightarrow> jsstring" where
  "joinComma [] = []"
| "joinComma [x] = x"
| "joinComma (x # y # ys) = x @ 0x2C # joinComma (y # ys)"

definition stringifyGoal :: "Goal \<Rightarrow> jsstring" where
  "stringifyGoal g =
     0x7B # QuoteJSONString (js ''id'') @ 0x3A # QuoteJSONString (id' g) @
     0x2C # QuoteJSONString (js ''description'') @ 0x3A # QuoteJSONString (description g) @
     0x2C # QuoteJSONString (js ''targetDate'') @ 0x3A #
       (case targetDate g of None \<Rightarrow> js ''null'' | Some d \<Rightarrow> QuoteJSONString d) @
     0x2C # QuoteJSONString (js ''completed'') @ 0x3A #
       (if completed g then js ''true'' else js ''false'') @ [0x7D]"

definition JSON_stringify :: "StudyPlan \<Rightarrow> jsstring" where
  "JSON_stringify sp =
     0x7B # QuoteJSONString (js ''userId'') @ 0x3A # QuoteJSONString (userId sp) @
     0x2C # QuoteJSONString (js ''goals'') @ 0x3A #
       0x5B # joinComma (map stringifyGoal (goals sp)) @ 0x5D #
     0x2C # QuoteJSONString (js ''subjects'') @ 0x3A #
       0x5B # joinComma (map QuoteJSONString (subjects sp)) @ 0x5D #
     0x2C # QuoteJSONString (js ''lastUpdated'') @ 0x3A # QuoteJSONString (lastUpdated sp) @
     [0x7D]"

text \<open>
  \<open>JSON.parse\<close>: the JSON grammar, read by recursive descent into the tree of the
  text. A number is kept as its lexeme. \<open>None\<close> is the SyntaxError.
\<close>

datatype json =
    JNull
  | JBool bool
  | JNumber jsstring
  | JString jsstring
  | JArray "json list"
  | JObject "(jsstring \<times> json) list"

definition isJsonWs :: "16 word \<Rightarrow> bool" where
  "isJsonWs c \<longleftrightarrow> c = 0x20 \<or> c = 0x09 \<or> c = 0x0A \<or> c = 0x0D"

definition skipWs :: "jsstring \<Rightarrow> jsstring" where
  "skipWs s = dropWhile isJsonWs s"

definition hexVal :: "16 word \<Rightarrow> nat option" where
  "hexVal c =
     (if 0x30 \<le> c \<and> c \<le> 0x39 then Some (unat c - 48)
      else if 0x61 \<le> c \<and> c \<le> 0x66 then Some (unat c - 87)
      else if 0x41 \<le> c \<and> c \<le> 0x46 then Some (unat c - 55)
      else None)"

definition unescape :: "16 word \<Rightarrow> 16 word option" where
  "unescape e =
     (if e = 0x22 \<or> e = 0x5C \<or> e = 0x2F then Some e
      else if e = 0x62 then Some 0x08
      else if e = 0x66 then Some 0x0C
      else if e = 0x6E then Some 0x0A
      else if e = 0x72 then Some 0x0D
      else if e = 0x74 then Some 0x09
      else None)"

definition consResult :: "'a \<Rightarrow> ('a list \<times> 'b) option \<Rightarrow> ('a list \<times> 'b) option" where
  "consResult x r = (case r of None \<Rightarrow> None | Some (xs, rest) \<Rightarrow> Some (x # xs, rest))"

text \<open>The code unit that the four hexadecimal digits of \<open>\uXXXX\<close> denote.\<close>

definition codeUnit :: "nat \<Rightarrow> nat \<Rightarrow> nat \<Rightarrow> nat \<Rightarrow> 16 word" where
  "codeUnit x1 x2 x3 x4 = of_nat (((x1 * 16 + x2) * 16 + x3) * 16 + x4)"

text \<open>The characters of a string after its opening quote, up to the closing quote.\<close>

fun parseStringChars :: "jsstring \<Rightarrow> (jsstring \<times> jsstring) option" where
  "parseStringChars [] = None"
| "parseStringChars (c # cs) =
     (if c = 0x22 then Some ([], cs)
      else if c = 0x5C then
        (case cs of
           [] \<Rightarrow> None
         | e # r \<Rightarrow>
             if e = 0x75 then
               (case r of
                  h1 # h2 # h3 # h4 # r' \<Rightarrow>
                    (case (hexVal h1, hexVal h2, hexVal h3, hexVal h4) of
                       (Some x1, Some x2, Some x3, Some x4) \<Rightarrow>
                         consResult (codeUnit x1 x2 x3 x4) (parseStringChars r')
                     | _ \<Rightarrow> None)
                | _ \<Rightarrow> None)
             else
               (case unescape e of
                  None \<Rightarrow> None
                | Some u \<Rightarrow> consResult u (parseStringChars r)))
      else if c < 0x20 then None
      else consResult c (parseStringChars cs))"

text \<open>
  A number: \<open>-? (0 | [1-9][0-9]*) (. [0-9]+)? ([eE] [+-]? [0-9]+)?\<close>. The result is the
  lexeme and the rest of the text.
\<close>

definition parseDigits :: "jsstring \<Rightarrow> (jsstring \<times> jsstring) option" where
  "parseDigits s =
     (if takeWhile isDigit s = [] then None
      else Some (takeWhile isDigit s, dropWhile isDigit s))"

definition parseInt :: "jsstring \<Rightarrow> (jsstring \<times> jsstring) option" where
  "parseInt s =
     (case s of
        [] \<Rightarrow> None
      | c # cs \<Rightarrow> if c = 0x30 then Some ([c], cs) else parseDigits s)"

definition parseFrac :: "jsstring \<Rightarrow> (jsstring \<times> jsstring) option" where
  "parseFrac s =
     (case s of
        [] \<Rightarrow> Some ([], s)
      | c # cs \<Rightarrow>
          if c = 0x2E
          then (case parseDigits cs of None \<Rightarrow> None | Some (ds, r) \<Rightarrow> Some (c # ds, r))
          else Some ([], s))"

definition parseExp :: "jsstring \<Rightarrow> (jsstring \<times> jsstring) option" where
  "parseExp s =
     (case s of
        [] \<Rightarrow> Some ([], s)
      | c # cs \<Rightarrow>
          if c = 0x65 \<or> c = 0x45
          then (case cs of
                  [] \<Rightarrow> None
                | g # gs \<Rightarrow>
                    if g = 0x2B \<or> g = 0x2D
                    then (case parseDigits gs of
                            None \<Rightarrow> None | Some (ds, r) \<Rightarrow> Some (c # g # ds, r))
                    else (case parseDigits cs of
                            None \<Rightarrow> None | Some (ds, r) \<Rightarrow> Some (c # ds, r)))
          else Some ([], s))"

definition parseNumber :: "jsstring \<Rightarrow> (jsstring \<times> jsstring) option" where
  "parseNumber s =
     (let sign = (case s of [] \<Rightarrow> [] | c # cs \<Rightarrow> if c = 0x2D then [c] else [])
      in case parseInt (drop (length sign) s) of
           None \<Rightarrow> None
         | Some (i, r1) \<Rightarrow>
             (case parseFrac r1 of
                None \<Rightarrow> None
              | Some (f, r2) \<Rightarrow>
                  (case parseExp r2 of
                     None \<Rightarrow> None
                   | Some (e, r3) \<Rightarrow> Some (sign @ i @ f @ e, r3))))"

definition stripPrefix :: "jsstring \<Rightarrow> jsstring \<Rightarrow> jsstring option" where
  "stripPrefix p s = (if take (length p) s = p then Some (drop (length p) s) else None)"

definition parseLiteral :: "jsstring \<Rightarrow> (json \<times> jsstring) option" where
  "parseLiteral s =
     (case stripPrefix (js ''true'') s of
        Some r \<Rightarrow> Some (JBool True, r)
      | None \<Rightarrow>
          (case stripPrefix (js ''false'') s of
             Some r \<Rightarrow> Some (JBool False, r)
           | None \<Rightarrow>
               (case stripPrefix (js ''null'') s of
                  Some r \<Rightarrow> Some (JNull, r)
                | None \<Rightarrow>
                    (case parseNumber s of
                       None \<Rightarrow> None
                     | Some (n, r) \<Rightarrow> Some (JNumber n, r)))))"

text \<open>
  Values, the elements of an array after \<open>[\<close>, and the members of an object after
  \<open>{\<close>. The first argument bounds the number of nested calls; \<open>JSON_parse\<close>
  starts with twice the length of the text.
\<close>

fun parseValue :: "nat \<Rightarrow> jsstring \<Rightarrow> (json \<times> jsstring) option"
  and parseElements :: "nat \<Rightarrow> jsstring \<Rightarrow> (json list \<times> jsstring) option"
  and parseMembers :: "nat \<Rightarrow> jsstring \<Rightarrow> ((jsstring \<times> json) list \<times> jsstring) option"
  where
  "parseValue 0 s = None"
| "parseValue (Suc n) s =
     (case skipWs s of
        [] \<Rightarrow> None
      | c # cs \<Rightarrow>
          if c = 0x7B then
            (case skipWs cs of
               [] \<Rightarrow> None
             | d # ds \<Rightarrow>
                 if d = 0x7D then Some (JObject [], ds)
                 else (case parseMembers n (d # ds) of
                         None \<Rightarrow> None | Some (ms, r) \<Rightarrow> Some (JObject ms, r)))
          else if c = 0x5B then
            (case skipWs cs of
               [] \<Rightarrow> None
             | d # ds \<Rightarrow>
                 if d = 0x5D then Some (JArray [], ds)
                 else (case parseElements n (d # ds) of
                         None \<Rightarrow> None | Some (vs, r) \<Rightarrow> Some (JArray vs, r)))
          else if c = 0x22 then
            (case parseStringChars cs of
               None \<Rightarrow> None | Some (str, r) \<Rightarrow> Some (JString str, r))
          else parseLiteral (c # cs))"
| "parseElements 0 s = None"
| "parseElements (Suc n) s =
     (case parseValue n s of
        None \<Rightarrow> None
      | Some (v, r) \<Rightarrow>
          (case skipWs r of
             [] \<Rightarrow> None
           | c # cs \<Rightarrow>
               if c = 0x2C then consResult v (parseElements n cs)
               else if c = 0x5D then Some ([v], cs)
               else None))"
| "parseMembers 0 s = None"
| "parseMembers (Suc n) s =
     (case skipWs s of
        [] \<Rightarrow> None
      | q # cs \<Rightarrow>
          if q \<noteq> 0x22 then None
          else
            (case parseStringChars cs of
               None \<Rightarrow> None
             | Some (k, r) \<Rightarrow>
                 (case skipWs r of
                    [] \<Rightarrow> None
                  | c # r1 \<Rightarrow>
                      if c \<noteq> 0x3A then None
                      else
                        (case parseValue n r1 of
                           None \<Rightarrow> None
                         | Some (v, r2) \<Rightarrow>
                             (case skipWs r2 of
                                [] \<Rightarrow> None
                              | e # r3 \<Rightarrow>
                                  if e = 0x2C then consResult (k, v) (parseMembers n r3)
                                  else if e = 0x7D then Some ([(k, v)], r3)
                                  else None)))))"

definition JSON_parse :: "jsstring \<Rightarrow> exn + json" where
  "JSON_parse s =
     (case parseValue (Suc (2 * length s)) s of
        None \<Rightarrow> Inl SyntaxError
      | Some (v, r) \<Rightarrow> if skipWs r = [] then Inr v else Inl SyntaxError)"

text \<open>
  \<open>setStudyPlan(JSON.parse(storedPlan))\<close> stores whatever the text denotes; the type
  \<open>StudyPlan | null\<close> of the state is not checked at run time. The model follows the
  component on \<open>null\<close> and on the objects that have exactly the properties of the
  interface, in the order in which the component creates them. \<open>None\<close> says that the
  value is of another shape.
\<close>

definition asString :: "json \<Rightarrow> jsstring option" where
  "asString v = (case v of JString s \<Rightarrow> Some s | _ \<Rightarrow> None)"

definition asNullableString :: "json \<Rightarrow> jsstring option option" where
  "asNullableString v = (case v of JString s \<Rightarrow> Some (Some s) | JNull \<Rightarrow> Some None | _ \<Rightarrow> None)"

definition asBool :: "json \<Rightarrow> bool option" where
  "asBool v = (case v of JBool b \<Rightarrow> Some b | _ \<Rightarrow> None)"

definition asGoal :: "json \<Rightarrow> Goal option" where
  "asGoal v =
     (case v of
        JObject ms \<Rightarrow>
          (if map fst ms = [js ''id'', js ''description'', js ''targetDate'', js ''completed'']
           then (case map snd ms of
                   [a, b, c, d] \<Rightarrow>
                     (case (asString a, asString b, asNullableString c, asBool d) of
                        (Some i, Some de, Some t, Some co) \<Rightarrow>
                          Some \<lparr>id' = i, description = de, targetDate = t, completed = co\<rparr>
                      | _ \<Rightarrow> None)
                 | _ \<Rightarrow> None)
           else None)
      | _ \<Rightarrow> None)"

definition asStudyPlan :: "json \<Rightarrow> StudyPlan option" where
  "asStudyPlan v =
     (case v of
        JObject ms \<Rightarrow>
          (if map fst ms = [js ''userId'', js ''goals'', js ''subjects'', js ''lastUpdated'']
           then (case map snd ms of
                   [a, JArray gs, JArray ss, d] \<Rightarrow>
                     (case (asString a, those (map asGoal gs), those (map asString ss),
                            asString d) of
                        (Some u, Some gl, Some sl, Some l) \<Rightarrow>
                          Some \<lparr>userId = u, goals = gl, subjects = sl, lastUpdated = l\<rparr>
                      | _ \<Rightarrow> None)
                 | _ \<Rightarrow> None)
           else None)
      | _ \<Rightarrow> None)"

definition asStudyPlanOrNull :: "json \<Rightarrow> StudyPlan option option" where
  "asStudyPlanOrNull v = (case v of JNull \<Rightarrow> Some None | _ \<Rightarrow> map_option Some (asStudyPlan v))"

text \<open>
  The tree of the text that \<open>JSON.stringify\<close> writes for a goal and for a plan.
\<close>

definition goalTree :: "Goal \<Rightarrow> json" where
  "goalTree g =
     JObject [(js ''id'', JString (id' g)),
              (js ''description'', JString (description g)),
              (js ''targetDate'', (case targetDate g of None \<Rightarrow> JNull | Some d \<Rightarrow> JString d)),
              (js ''completed'', JBool (completed g))]"

definition planTree :: "StudyPlan \<Rightarrow> json" where
  "planTree sp =
     JObject [(js ''userId'', JString (userId sp)),
              (js ''goals'', JArray (map goalTree (goals sp))),
              (js ''subjects'', JArray (map JString (subjects sp))),
              (js ''lastUpdated'', JString (lastUpdated sp))]"

section \<open>Durable storage and the two effects\<close>

text \<open>
  \<open>localStorage\<close>: the stored items, and whether a read or a write throws (access
  denied, quota exceeded), which the environment decides.
\<close>

record localStorage =
  items :: "jsstring \<Rightarrow> jsstring option"
  getItemThrows :: bool
  setItemThrows :: bool

definition getItem :: "localStorage \<Rightarrow> jsstring \<Rightarrow> exn + jsstring option" where
  "getItem ls k = (if getItemThrows ls then Inl SecurityError else Inr (items ls k))"

definition setItem :: "localStorage \<Rightarrow> jsstring \<Rightarrow> jsstring \<Rightarrow> exn + localStorage" where
  "setItem ls k v =
     (if setItemThrows ls then Inl QuotaExceededError
      else Inr (ls\<lparr>items := (items ls)(k \<mapsto> v)\<rparr>))"

text \<open>\<open>if (storedPlan)\<close>: \<open>null\<close> and the empty string are falsy.\<close>

definition truthy :: "jsstring option \<Rightarrow> jsstring option" where
  "truthy v = (case v of None \<Rightarrow> None | Some s \<Rightarrow> if s = [] then None else Some s)"

definition loadError :: jsstring where
  "loadError = js ''Failed to load study plan from local storage.''"

definition saveError :: jsstring where
  "saveError = js ''Failed to save study plan to local storage.''"

text \<open>
  The effect that runs once on mount. The result \<open>None\<close> says that the stored text
  denotes a value of another shape than a plan, which the component adopts unchecked.
\<close>

definition loadOnMount ::
  "jsstring \<Rightarrow> localStorage \<times> store \<Rightarrow> (localStorage \<times> store) option" where
  "loadOnMount now w =
     (case w of (ls, st) \<Rightarrow>
        (case getItem ls localStorageKey of
           Inl e \<Rightarrow> Some (ls, st\<lparr>studyPlannerError := Some loadError\<rparr>)
         | Inr storedPlan \<Rightarrow>
             (case truthy storedPlan of
                Some text \<Rightarrow>
                  (case JSON_parse text of
                     Inl e \<Rightarrow> Some (ls, st\<lparr>studyPlannerError := Some loadError\<rparr>)
                   | Inr v \<Rightarrow>
                       (case asStudyPlanOrNull v of
                          None \<Rightarrow> None
                        | Some sp \<Rightarrow> Some (ls, st\<lparr>studyPlan := sp\<rparr>)))
              | None \<Rightarrow>
                  (let st' = st\<lparr>studyPlan := Some (defaultPlan now)\<rparr>
                   in case setItem ls localStorageKey (JSON_stringify (defaultPlan now)) of
                        Inl e \<Rightarrow> Some (ls, st'\<lparr>studyPlannerError := Some loadError\<rparr>)
                      | Inr ls' \<Rightarrow> Some (ls', st')))))"

text \<open>The effect that runs after every render in which \<open>studyPlan\<close> has changed.\<close>

definition saveEffect :: "localStorage \<times> store \<Rightarrow> localStorage \<times> store" where
  "saveEffect w =
     (case w of (ls, st) \<Rightarrow>
        (case studyPlan st of
           None \<Rightarrow> (ls, st)
         | Some sp \<Rightarrow>
             (case setItem ls localStorageKey (JSON_stringify sp) of
                Inl e \<Rightarrow> (ls, st\<lparr>studyPlannerError := Some saveError\<rparr>)
              | Inr ls' \<Rightarrow> (ls', st))))"

section \<open>Sample states for the concrete instances\<close>

definition planA :: StudyPlan where
  "planA =
     \<lparr>userId = fixedUserId,
      goals = [\<lparr>id' = js ''g1'', description = js ''Read'', targetDate = None,
                completed = False\<rparr>,
               \<lparr>id' = js ''g2'', description = js ''Write'', targetDate = None,
                completed = True\<rparr>],
      subjects = [js ''Biology'', js ''Maths''],
      lastUpdated = js ''2025-01-01T00:00:00.000Z''\<rparr>"

definition storeA :: store where
  "storeA = initialStore\<lparr>studyPlan := Some planA\<rparr>"

text \<open>
  Storages: an empty one, one whose quota is exhausted, one that denies access, and one
  that holds a corrupt text under the key of the plan.
\<close>

definition emptyStorage :: localStorage where
  "emptyStorage = \<lparr>items = Map.empty, getItemThrows = False, setItemThrows = False\<rparr>"

definition fullStorage :: localStorage where
  "fullStorage = \<lparr>items = Map.empty, getItemThrows = False, setItemThrows = True\<rparr>"

definition deniedStorage :: localStorage where
  "deniedStorage = \<lparr>items = Map.empty, getItemThrows = True, setItemThrows = True\<rparr>"

definition corruptStorage :: localStorage where
  "corruptStorage =
     \<lparr>items = [localStorageKey \<mapsto> js ''{oops''], getItemThrows = False, setItemThrows = False\<rparr>"

definition opsA :: "goalOp list" where
  "opsA = [AddGoal (js ''Plan'') (js ''2025-06-01'') (js ''u1'') (js ''t1''),
           ToggleGoal (js ''g1'') (js ''t2''),
           AddGoal (js ''  '') [] (js ''u2'') (js ''t3''),
           ToggleGoal (js ''u1'') (js ''t4''),
           DeleteGoal (js ''g2'') (js ''t5''),
           ToggleGoal (js ''g1'') (js ''t6''),
           AddGoal (js '' Rest '') [] (js ''u3'') (js ''t7''),
           AddGoal (js ''Bad'') (js ''not a date'') (js ''u4'') (js ''t8'')]"

section \<open>Unfolding and evaluation\<close>

lemmas handler_defs = handleAddGoal_def handleToggleGoalCompletion_def handleDeleteGoal_def
  handleAddSubject_def handleDeleteSubject_def addGoal_def toggleGoal_def deleteGoal_def
  addSubject_def deleteSubject_def setStudyPlan_def orDefault_def

lemmas eval_defs = trim_def isWhiteSpace_def js_def dateInputToISO_def isDigit_def
  digitValue_def daysInMonth_def isLeapYear_def Let_def initialStore_def currentGoals_def
  currentSubjects_def

section \<open>Validation no-ops\<close>

text \<open>
  Claim C7. A goal description, or a subject name, that is empty or consists of white
  space only is ignored: the handler returns the state it was given, so the plan with
  its \<open>lastUpdated\<close> is unchanged and no error string is set.
\<close>

theorem validation_noop:
  "(trim (newGoalDescription st) = [] \<longrightarrow> handleAddGoal toISO uuid now st = st)
   \<and> (trim (newSubject st) = [] \<longrightarrow> handleAddSubject now2 st = st)
   \<and> (trim descr = [] \<longrightarrow>
        studyPlan (addGoal toISO descr date uuid now st) = studyPlan st
        \<and> studyPlannerError (addGoal toISO descr date uuid now st) = studyPlannerError st)
   \<and> (trim name = [] \<longrightarrow>
        studyPlan (addSubject name now2 st) = studyPlan st
        \<and> studyPlannerError (addSubject name now2 st) = studyPlannerError st)"
  by (simp add: handleAddGoal_def handleAddSubject_def addGoal_def addSubject_def)

theorem validation_noop_witness:
  "trim (js ''   '') = [] \<and> trim [0x09, 0x20] = [] \<and> trim [] = []
   \<and> handleAddGoal dateInputToISO (js ''u1'') (js ''t1'')
        (storeA\<lparr>newGoalDescription := js ''   '', newSubject := [0x09, 0x20]\<rparr>)
      = storeA\<lparr>newGoalDescription := js ''   '', newSubject := [0x09, 0x20]\<rparr>
   \<and> handleAddSubject (js ''t2'')
        (storeA\<lparr>newGoalDescription := js ''   '', newSubject := [0x09, 0x20]\<rparr>)
      = storeA\<lparr>newGoalDescription := js ''   '', newSubject := [0x09, 0x20]\<rparr>
   \<and> studyPlan (addGoal dateInputToISO [] (js ''2025-06-01'') (js ''u1'') (js ''t1'')
        (storeA\<lparr>newGoalDescription := js ''   '', newSubject := [0x09, 0x20]\<rparr>))
      = Some planA
   \<and> studyPlannerError (addSubject [] (js ''t2'')
        (storeA\<lparr>newGoalDescription := js ''   '', newSubject := [0x09, 0x20]\<rparr>)) = None"
  using validation_noop [of "storeA\<lparr>newGoalDescription := js ''   '', newSubject := [0x09, 0x20]\<rparr>"
      dateInputToISO "js ''u1''" "js ''t1''" "js ''t2''" "[]" "js ''2025-06-01''" "[]"]
  by (simp add: eval_defs storeA_def)

section \<open>Adding a goal\<close>




section \<open>Operations on an uninitialised plan\<close>

text \<open>
  Claim C10. When the plan is \<open>null\<close>, a valid \<open>addGoal\<close> or \<open>addSubject\<close> does
  not fail: it starts from a fresh default plan (user "localUser123", no goals, no
  subjects, \<open>lastUpdated\<close> the current time) and applies the addition to it, and sets
  no error. \<open>toggleGoal\<close>, \<open>deleteGoal\<close> and \<open>deleteSubject\<close> return the state
  unchanged.
\<close>

theorem null_plan_operations:
  "studyPlan st = None \<longrightarrow>
     (trim descr \<noteq> [] \<longrightarrow>
        studyPlan (addGoal toISO descr [] uuid now st)
          = Some \<lparr>userId = js ''localUser123'',
                  goals = [\<lparr>id' = uuid, description = trim descr, targetDate = None,
                            completed = False\<rparr>],
                  subjects = [], lastUpdated = now\<rparr>
        \<and> studyPlannerError (addGoal toISO descr [] uuid now st) = studyPlannerError st)
     \<and> (trim descr \<noteq> [] \<and> date \<noteq> [] \<and> toISO date = Inr isoText \<longrightarrow>
        studyPlan (addGoal toISO descr date uuid now st)
          = Some \<lparr>userId = js ''localUser123'',
                  goals = [\<lparr>id' = uuid, description = trim descr, targetDate = Some isoText,
                            completed = False\<rparr>],
                  subjects = [], lastUpdated = now\<rparr>
        \<and> studyPlannerError (addGoal toISO descr date uuid now st) = studyPlannerError st)
     \<and> (trim name \<noteq> [] \<longrightarrow>
        studyPlan (addSubject name now st)
          = Some \<lparr>userId = js ''localUser123'', goals = [], subjects = [trim name],
                  lastUpdated = now\<rparr>
        \<and> studyPlannerError (addSubject name now st) = studyPlannerError st)
     \<and> toggleGoal goalId now st = st
     \<and> deleteGoal goalId now st = st
     \<and> deleteSubject name now st = st"
  by (simp add: handler_defs Let_def defaultPlan_def fixedUserId_def currentSubjects_def
      arrayFromSet_def setAdd_def)

theorem null_plan_operations_witness:
  "studyPlan initialStore = None
   \<and> trim (js ''Read'') \<noteq> [] \<and> js ''2025-06-01'' \<noteq> []
   \<and> dateInputToISO (js ''2025-06-01'') = Inr (js ''2025-06-01T00:00:00.000Z'')
   \<and> trim (js '' Biology '') \<noteq> []
   \<and> studyPlan (addGoal dateInputToISO (js ''Read'') [] (js ''u1'') (js ''t1'') initialStore)
        = Some \<lparr>userId = js ''localUser123'',
                goals = [\<lparr>id' = js ''u1'', description = js ''Read'', targetDate = None,
                          completed = False\<rparr>],
                subjects = [], lastUpdated = js ''t1''\<rparr>
   \<and> studyPlan (addGoal dateInputToISO (js ''Read'') (js ''2025-06-01'') (js ''u1'')
          (js ''t1'') initialStore)
        = Some \<lparr>userId = js ''localUser123'',
                goals = [\<lparr>id' = js ''u1'', description = js ''Read'',
                          targetDate = Some (js ''2025-06-01T00:00:00.000Z''),
                          completed = False\<rparr>],
                subjects = [], lastUpdated = js ''t1''\<rparr>
   \<and> studyPlan (addSubject (js '' Biology '') (js ''t1'') initialStore)
        = Some \<lparr>userId = js ''localUser123'', goals = [], subjects = [js ''Biology''],
                lastUpdated = js ''t1''\<rparr>
   \<and> toggleGoal (js ''g1'') (js ''t1'') initialStore = initialStore"
  using null_plan_operations [of initialStore "js ''Read''" dateInputToISO "js ''u1''"
      "js ''t1''" "js ''2025-06-01''" "js ''2025-06-01T00:00:00.000Z''" "js '' Biology ''"
      "js ''g1''"]
  by (simp add: eval_defs)

section \<open>Adding a subject\<close>

lemma arrayFromSet_snoc: "arrayFromSet (xs @ [x]) = setAdd (arrayFromSet xs) x"
  by (simp add: arrayFromSet_def)

text \<open>First occurrences, in order: the last occurrences of the reversed list.\<close>

lemma arrayFromSet_first_seen: "arrayFromSet xs = rev (remdups (rev xs))"
proof (induction xs rule: rev_induct)
  case Nil
  show ?case by (simp add: arrayFromSet_def)
next
  case (snoc x xs)
  then show ?case by (simp add: arrayFromSet_snoc setAdd_def)
qed

lemma distinct_arrayFromSet: "distinct (arrayFromSet xs)"
  by (simp add: arrayFromSet_first_seen)

lemma set_arrayFromSet: "set (arrayFromSet xs) = set xs"
  by (simp add: arrayFromSet_first_seen)

lemma arrayFromSet_distinct_id: "distinct xs \<Longrightarrow> arrayFromSet xs = xs"
  by (simp add: arrayFromSet_first_seen distinct_remdups_id)

lemma currentSubjects_addSubject:
  "trim name \<noteq> [] \<Longrightarrow>
   currentSubjects (addSubject name now st) = arrayFromSet (currentSubjects st @ [trim name])"
  by (simp add: handler_defs Let_def currentSubjects_def)

lemma count_list_distinct: "distinct xs \<Longrightarrow> x \<in> set xs \<Longrightarrow> count_list xs x = 1"
  by (induction xs) (auto simp: count_list_0_iff)

text \<open>
  Claim C5. For a name that is not empty after trimming, \<open>addSubject\<close> leaves the
  subjects with the trimmed name appended, reduced to first occurrences in their order.
  Adding the same name again changes nothing: the name occurs exactly once, and where it
  was already present in a duplicate-free list, the list is as before.
\<close>

theorem add_subject_dedup:
  "trim name \<noteq> [] \<longrightarrow>
     currentSubjects (addSubject name now st)
       = rev (remdups (rev (currentSubjects st @ [trim name])))
     \<and> currentSubjects (addSubject name now2 (addSubject name now st))
       = currentSubjects (addSubject name now st)
     \<and> count_list (currentSubjects (addSubject name now2 (addSubject name now st))) (trim name) = 1
     \<and> (distinct (currentSubjects st) \<and> trim name \<in> set (currentSubjects st) \<longrightarrow>
          currentSubjects (addSubject name now st) = currentSubjects st)"
proof
  assume t: "trim name \<noteq> []"
  let ?s1 = "currentSubjects (addSubject name now st)"
  have s1: "?s1 = arrayFromSet (currentSubjects st @ [trim name])"
    using t by (rule currentSubjects_addSubject)
  have d1: "distinct ?s1" and m1: "trim name \<in> set ?s1"
    by (simp_all add: s1 distinct_arrayFromSet set_arrayFromSet)
  have "currentSubjects (addSubject name now2 (addSubject name now st))
          = arrayFromSet (?s1 @ [trim name])"
    using t by (rule currentSubjects_addSubject)
  also have "\<dots> = setAdd (arrayFromSet ?s1) (trim name)"
    by (rule arrayFromSet_snoc)
  also have "\<dots> = ?s1"
    using d1 m1 by (simp add: arrayFromSet_distinct_id setAdd_def)
  finally have twice: "currentSubjects (addSubject name now2 (addSubject name now st)) = ?s1" .
  have keep: "?s1 = currentSubjects st"
    if "distinct (currentSubjects st)" "trim name \<in> set (currentSubjects st)"
    using that by (simp add: s1 arrayFromSet_snoc arrayFromSet_distinct_id setAdd_def)
  show "?s1 = rev (remdups (rev (currentSubjects st @ [trim name])))
     \<and> currentSubjects (addSubject name now2 (addSubject name now st)) = ?s1
     \<and> count_list (currentSubjects (addSubject name now2 (addSubject name now st))) (trim name) = 1
     \<and> (distinct (currentSubjects st) \<and> trim name \<in> set (currentSubjects st) \<longrightarrow>
          ?s1 = currentSubjects st)"
    using s1 twice keep d1 m1 by (simp add: arrayFromSet_first_seen count_list_distinct)
qed

theorem add_subject_dedup_witness:
  "trim (js '' Biology '') \<noteq> []
   \<and> distinct (currentSubjects storeA) \<and> trim (js '' Biology '') \<in> set (currentSubjects storeA)
   \<and> currentSubjects (addSubject (js '' Biology '') (js ''t1'') storeA)
       = [js ''Biology'', js ''Maths'']
   \<and> currentSubjects (addSubject (js '' Biology '') (js ''t2'')
        (addSubject (js '' Biology '') (js ''t1'') storeA))
       = [js ''Biology'', js ''Maths'']"
  using add_subject_dedup [of "js '' Biology ''" "js ''t1''" storeA "js ''t2''"]
  by (simp add: eval_defs storeA_def planA_def)

section \<open>Toggling and deleting a goal\<close>

lemma map_toggle_absent:
  "gid \<notin> id' ` set gs \<Longrightarrow>
   map (\<lambda>goal. if id' goal = gid then goal\<lparr>completed := \<not> completed goal\<rparr> else goal) gs = gs"
  by (induction gs) auto

lemma filter_absent: "gid \<notin> id' ` set gs \<Longrightarrow> filter (\<lambda>goal. id' goal \<noteq> gid) gs = gs"
  by (induction gs) auto

text \<open>
  Claim C4, as amended. On an initialised plan, \<open>toggleGoal\<close> and \<open>deleteGoal\<close>
  with an identifier that no goal has leave \<open>userId\<close>, \<open>goals\<close> and \<open>subjects\<close>
  as they are and set \<open>lastUpdated\<close> to the current time. With the identifier of a
  goal of the list, \<open>toggleGoal\<close> negates the flag of that goal and nothing else,
  \<open>deleteGoal\<close> removes that goal and nothing else, and both set \<open>lastUpdated\<close>.
\<close>

theorem toggle_delete_effect:
  "studyPlan st = Some sp \<longrightarrow>
     (gid \<notin> id' ` set (goals sp) \<longrightarrow>
        studyPlan (toggleGoal gid now st) = Some (sp\<lparr>lastUpdated := now\<rparr>)
        \<and> studyPlan (deleteGoal gid now st) = Some (sp\<lparr>lastUpdated := now\<rparr>))
     \<and> (goals sp = xs @ g # ys \<and> id' g = gid \<and> gid \<notin> id' ` set xs \<and> gid \<notin> id' ` set ys \<longrightarrow>
          studyPlan (toggleGoal gid now st)
            = Some (sp\<lparr>goals := xs @ g\<lparr>completed := \<not> completed g\<rparr> # ys,
                       lastUpdated := now\<rparr>)
          \<and> studyPlan (deleteGoal gid now st)
            = Some (sp\<lparr>goals := xs @ ys, lastUpdated := now\<rparr>))"
  by (auto simp add: handler_defs Let_def map_toggle_absent filter_absent)

theorem toggle_delete_effect_witness:
  "studyPlan storeA = Some planA
   \<and> js ''g9'' \<notin> id' ` set (goals planA)
   \<and> studyPlan (toggleGoal (js ''g9'') (js ''t2'') storeA)
       = Some (planA\<lparr>lastUpdated := js ''t2''\<rparr>)
   \<and> studyPlan (deleteGoal (js ''g9'') (js ''t2'') storeA)
       = Some (planA\<lparr>lastUpdated := js ''t2''\<rparr>)
   \<and> goals planA = [hd (goals planA)] @ (goals planA ! 1) # []
   \<and> id' (goals planA ! 1) = js ''g2'' \<and> js ''g2'' \<notin> id' ` set [hd (goals planA)]
   \<and> studyPlan (toggleGoal (js ''g2'') (js ''t2'') storeA)
       = Some (planA\<lparr>goals := [hd (goals planA), (goals planA ! 1)\<lparr>completed := False\<rparr>],
                      lastUpdated := js ''t2''\<rparr>)
   \<and> studyPlan (deleteGoal (js ''g2'') (js ''t2'') storeA)
       = Some (planA\<lparr>goals := [hd (goals planA)], lastUpdated := js ''t2''\<rparr>)"
  using toggle_delete_effect [of storeA planA "js ''g9''" "js ''t2''" "[]" "hd (goals planA)"
      "tl (goals planA)"]
    toggle_delete_effect [of storeA planA "js ''g2''" "js ''t2''" "[hd (goals planA)]"
      "goals planA ! 1" "[]"]
  by (simp add: eval_defs storeA_def planA_def)

text \<open>
  The claim as it was stated fails: no goal of the sample plan has the identifier "g9",
  and both operations change the plan, namely its \<open>lastUpdated\<close>.
\<close>

theorem toggle_missing_id_counterexample:
  "js ''g9'' \<notin> id' ` set (goals planA)
   \<and> studyPlan (toggleGoal (js ''g9'') (js ''2025-01-02T00:00:00.000Z'') storeA)
       \<noteq> studyPlan storeA
   \<and> studyPlan (deleteGoal (js ''g9'') (js ''2025-01-02T00:00:00.000Z'') storeA)
       \<noteq> studyPlan storeA"
  by (simp add: handler_defs eval_defs storeA_def planA_def)

section \<open>Subjects stay free of duplicates\<close>

lemma currentSubjects_goal_ops:
  "currentSubjects (toggleGoal goalId now st) = currentSubjects st"
  "currentSubjects (deleteGoal goalId now st) = currentSubjects st"
  by (simp_all add: handler_defs Let_def currentSubjects_def split: option.splits)

lemma currentSubjects_addGoal:
  "currentSubjects (addGoal toISO descr date uuid now st) = currentSubjects st"
  by (simp add: handler_defs Let_def currentSubjects_def defaultPlan_def
      split: option.splits sum.splits)

lemma currentSubjects_deleteSubject:
  "currentSubjects (deleteSubject name now st)
     = filter (\<lambda>subject. subject \<noteq> name) (currentSubjects st)"
  by (simp add: handler_defs Let_def currentSubjects_def split: option.splits)

lemma currentSubjects_addSubject_noop:
  "trim name = [] \<Longrightarrow> currentSubjects (addSubject name now st) = currentSubjects st"
  by (simp add: handler_defs currentSubjects_def)

text \<open>
  Claim C9. That the subjects contain no string twice holds of the default plan and is
  kept by each of \<open>addGoal\<close>, \<open>toggleGoal\<close>, \<open>deleteGoal\<close>, \<open>addSubject\<close> and
  \<open>deleteSubject\<close>, from every state in which it holds.
\<close>

theorem subjects_distinct_invariant:
  "distinct (subjects (defaultPlan now0))
   \<and> (distinct (currentSubjects st) \<longrightarrow>
        distinct (currentSubjects (addGoal toISO descr date uuid now st))
        \<and> distinct (currentSubjects (toggleGoal goalId now st))
        \<and> distinct (currentSubjects (deleteGoal goalId now st))
        \<and> distinct (currentSubjects (addSubject name now st))
        \<and> distinct (currentSubjects (deleteSubject name now st)))"
proof -
  have "distinct (currentSubjects (addSubject name now st))" if "distinct (currentSubjects st)"
  proof (cases "trim name = []")
    case True
    with that show ?thesis by (simp add: currentSubjects_addSubject_noop)
  next
    case False
    then show ?thesis by (simp add: currentSubjects_addSubject distinct_arrayFromSet)
  qed
  then show ?thesis
    by (simp add: defaultPlan_def currentSubjects_goal_ops currentSubjects_addGoal
        currentSubjects_deleteSubject)
qed

theorem subjects_distinct_invariant_witness:
  "distinct (currentSubjects storeA)
   \<and> distinct (currentSubjects (addSubject (js ''Maths'') (js ''t1'') storeA))
   \<and> distinct (currentSubjects (deleteSubject (js ''Maths'') (js ''t1'') storeA))
   \<and> distinct (currentSubjects (addGoal dateInputToISO (js ''Read'') [] (js ''u1'')
        (js ''t1'') storeA))"
  using subjects_distinct_invariant [of _ storeA dateInputToISO "js ''Read''" "[]" "js ''u1''"
      "js ''t1''" _ "js ''Maths''"]
  by (simp add: eval_defs storeA_def planA_def)

section \<open>Sequences of goal operations: the final goals\<close>

lemma currentGoals_toggleGoal:
  "currentGoals (toggleGoal gid now st)
     = map (\<lambda>goal. if id' goal = gid then goal\<lparr>completed := \<not> completed goal\<rparr> else goal)
           (currentGoals st)"
  by (simp add: handler_defs Let_def currentGoals_def split: option.splits)

lemma currentGoals_deleteGoal:
  "currentGoals (deleteGoal gid now st) = filter (\<lambda>goal. id' goal \<noteq> gid) (currentGoals st)"
  by (simp add: handler_defs Let_def currentGoals_def split: option.splits)

lemma currentGoals_addGoal:
  "currentGoals (addGoal toISO descr date uuid now st)
     = currentGoals st @ goalsAdded toISO (AddGoal descr date uuid now)"
  by (simp add: handler_defs Let_def currentGoals_def defaultPlan_def
      split: option.splits sum.splits)

lemma initialized_applyOp:
  "studyPlan st \<noteq> None \<Longrightarrow> studyPlan (applyOp toISO x st) \<noteq> None"
  by (cases x) (auto simp add: handler_defs Let_def split: option.splits sum.splits)

lemma initialized_run: "studyPlan st \<noteq> None \<Longrightarrow> studyPlan (run toISO xs st) \<noteq> None"
proof (induction xs arbitrary: st)
  case Nil
  then show ?case by simp
next
  case (Cons x xs)
  from Cons.prems have "studyPlan (applyOp toISO x st) \<noteq> None"
    by (rule initialized_applyOp)
  then have "studyPlan (run toISO xs (applyOp toISO x st)) \<noteq> None"
    by (rule Cons.IH)
  then show ?case by simp
qed

lemma survivors_append: "survivors rest (gs @ hs) = survivors rest gs @ survivors rest hs"
  by (simp add: survivors_def)

lemma survivors_Nil: "survivors [] gs = gs"
  by (simp add: survivors_def toggleCount_def deletedLater_def)

lemma survivors_Nil2: "survivors rest [] = []"
  by (simp add: survivors_def)

lemma survivors_AddGoal:
  "survivors (AddGoal descr date uuid now # rest) gs = survivors rest gs"
  by (simp add: survivors_def toggleCount_def deletedLater_def)

lemma survivors_DeleteGoal:
  "survivors (DeleteGoal gid now # rest) gs
     = survivors rest (filter (\<lambda>goal. id' goal \<noteq> gid) gs)"
  by (induction gs) (auto simp add: survivors_def toggleCount_def deletedLater_def)

lemma flip_parity: "((\<not> a) = b) = (a = (\<not> b))"
  by auto

lemma survivors_ToggleGoal:
  "survivors (ToggleGoal gid now # rest) gs
     = survivors rest
         (map (\<lambda>goal. if id' goal = gid then goal\<lparr>completed := \<not> completed goal\<rparr> else goal) gs)"
  by (induction gs) (auto simp add: survivors_def toggleCount_def deletedLater_def flip_parity)

lemma survivors_step:
  "survivors rest (currentGoals (applyOp toISO x st))
     = survivors (x # rest) (currentGoals st) @ survivors rest (goalsAdded toISO x)"
proof (cases x)
  case (AddGoal descr date uuid now)
  then show ?thesis
    using currentGoals_addGoal [of toISO descr date uuid now st]
    by (simp only: applyOp.simps survivors_append survivors_AddGoal)
next
  case (ToggleGoal gid now)
  then show ?thesis
    by (simp add: currentGoals_toggleGoal survivors_ToggleGoal survivors_Nil2)
next
  case (DeleteGoal gid now)
  then show ?thesis
    by (simp add: currentGoals_deleteGoal survivors_DeleteGoal survivors_Nil2)
qed

lemma expectedGoals_Cons:
  "expectedGoals toISO gs0 (x # xs)
     = survivors (x # xs) gs0 @ survivors xs (goalsAdded toISO x)
       @ concat (map (\<lambda>i. survivors (drop (Suc i) xs) (goalsAdded toISO (xs ! i))) [0..<length xs])"
proof -
  have "[0..<length (x # xs)] = 0 # map Suc [0..<length xs]"
    by (simp add: upt_conv_Cons map_Suc_upt del: upt_Suc)
  then show ?thesis
    by (simp add: expectedGoals_def comp_def del: upt_Suc)
qed

lemma currentGoals_run:
  "currentGoals (run toISO xs st) = expectedGoals toISO (currentGoals st) xs"
proof (induction xs arbitrary: st)
  case Nil
  show ?case by (simp add: expectedGoals_def survivors_Nil)
next
  case (Cons x xs)
  have "currentGoals (run toISO (x # xs) st)
          = expectedGoals toISO (currentGoals (applyOp toISO x st)) xs"
    by (simp add: Cons.IH)
  also have "\<dots> = survivors xs (currentGoals (applyOp toISO x st))
        @ concat (map (\<lambda>i. survivors (drop (Suc i) xs) (goalsAdded toISO (xs ! i))) [0..<length xs])"
    by (simp add: expectedGoals_def)
  also have "\<dots> = expectedGoals toISO (currentGoals st) (x # xs)"
    by (simp add: survivors_step expectedGoals_Cons)
  finally show ?case .
qed

text \<open>
  Claim C1. After any sequence of \<open>addGoal\<close>, \<open>deleteGoal\<close> and
  \<open>toggleGoal\<close> calls on an initialised plan, the plan is initialised and its goals
  are exactly the goals that were present or added (\<open>goalsAdded\<close>) and not deleted
  afterwards, in insertion order; the flag of each is its first value, \<open>false\<close> for
  an added goal, changed once for every later \<open>toggleGoal\<close> with its identifier.
  Two \<open>toggleGoal\<close> calls with the same identifier give every flag its value back.
\<close>

theorem goal_sequence:
  "(studyPlan st = Some sp \<longrightarrow>
      (\<exists>sp'. studyPlan (run toISO xs st) = Some sp'
             \<and> goals sp' = expectedGoals toISO (goals sp) xs))
   \<and> currentGoals (toggleGoal gid now2 (toggleGoal gid now st)) = currentGoals st"
proof
  show "studyPlan st = Some sp \<longrightarrow>
      (\<exists>sp'. studyPlan (run toISO xs st) = Some sp'
             \<and> goals sp' = expectedGoals toISO (goals sp) xs)"
  proof
    assume init: "studyPlan st = Some sp"
    then have "studyPlan (run toISO xs st) \<noteq> None"
      by (simp add: initialized_run)
    then obtain sp' where sp': "studyPlan (run toISO xs st) = Some sp'"
      by auto
    with init currentGoals_run [of toISO xs st]
    have "goals sp' = expectedGoals toISO (goals sp) xs"
      by (simp add: currentGoals_def)
    with sp' show "\<exists>sp'. studyPlan (run toISO xs st) = Some sp'
             \<and> goals sp' = expectedGoals toISO (goals sp) xs"
      by simp
  qed
  have "map (\<lambda>goal. if id' goal = gid then goal\<lparr>completed := \<not> completed goal\<rparr> else goal)
          (map (\<lambda>goal. if id' goal = gid then goal\<lparr>completed := \<not> completed goal\<rparr> else goal) gs)
        = gs" for gs
    by (induction gs) auto
  then show "currentGoals (toggleGoal gid now2 (toggleGoal gid now st)) = currentGoals st"
    by (simp only: currentGoals_toggleGoal)
qed

lemma run_opsA:
  "studyPlan (run dateInputToISO opsA storeA)
    = Some \<lparr>userId = fixedUserId,
        goals = [\<lparr>id' = js ''g1'', description = js ''Read'', targetDate = None,
                  completed = False\<rparr>,
                 \<lparr>id' = js ''u1'', description = js ''Plan'',
                  targetDate = Some (js ''2025-06-01T00:00:00.000Z''), completed = True\<rparr>,
                 \<lparr>id' = js ''u3'', description = js ''Rest'', targetDate = None,
                  completed = False\<rparr>],
        subjects = [js ''Biology'', js ''Maths''], lastUpdated = js ''t7''\<rparr>"
  by (simp add: opsA_def handler_defs eval_defs storeA_def planA_def)

theorem goal_sequence_witness:
  "studyPlan storeA = Some planA
   \<and> currentGoals (run dateInputToISO opsA storeA)
      = [\<lparr>id' = js ''g1'', description = js ''Read'', targetDate = None, completed = False\<rparr>,
         \<lparr>id' = js ''u1'', description = js ''Plan'',
          targetDate = Some (js ''2025-06-01T00:00:00.000Z''), completed = True\<rparr>,
         \<lparr>id' = js ''u3'', description = js ''Rest'', targetDate = None, completed = False\<rparr>]
   \<and> expectedGoals dateInputToISO (goals planA) opsA
      = [\<lparr>id' = js ''g1'', description = js ''Read'', targetDate = None, completed = False\<rparr>,
         \<lparr>id' = js ''u1'', description = js ''Plan'',
          targetDate = Some (js ''2025-06-01T00:00:00.000Z''), completed = True\<rparr>,
         \<lparr>id' = js ''u3'', description = js ''Rest'', targetDate = None, completed = False\<rparr>]"
  using goal_sequence [of storeA planA dateInputToISO opsA] run_opsA
  by (simp add: storeA_def initialStore_def currentGoals_def)

section \<open>The persisted text round trip\<close>

lemma unat_hexDigit: "d < 16 \<Longrightarrow> unat (hexDigit d) = (if d < 10 then 48 + d else 87 + d)"
  by (simp add: hexDigit_def unat_of_nat del: of_nat_add of_nat_numeral)

lemma hexVal_hexDigit: "d < 16 \<Longrightarrow> hexVal (hexDigit d) = Some d"
  by (simp add: hexVal_def word_le_nat_alt unat_hexDigit)

lemma unat_16_bound: "unat (c :: 16 word) < 65536"
  using unsigned_less [of c, where 'a = nat] by simp

lemma nibbles:
  assumes "n < 65536"
  shows "((n div 4096 mod 16 * 16 + n div 256 mod 16) * 16 + n div 16 mod 16) * 16 + n mod 16
           = (n::nat)"
proof -
  have d2: "n div 256 = n div 16 div 16" and d3: "n div 4096 = n div 16 div 16 div 16"
    by (simp_all add: div_mult2_eq [symmetric])
  from assms have "n div 4096 < 16"
    by (simp add: div_less_iff_less_mult)
  then have a: "n div 4096 mod 16 = n div 16 div 16 div 16"
    by (simp add: d3)
  show ?thesis
    unfolding a d2 by (simp only: div_mult_mod_eq)
qed

lemma hex4_value:
  "codeUnit (unat c div 4096 mod 16) (unat c div 256 mod 16) (unat c div 16 mod 16)
     (unat c mod 16) = c"
  unfolding codeUnit_def by (simp only: nibbles [OF unat_16_bound]) simp

lemma parse_unicodeEscape:
  "parseStringChars (unicodeEscape c @ rest) = consResult c (parseStringChars rest)"
  by (simp add: unicodeEscape_def hexVal_hexDigit hex4_value)

lemma parse_quoteUnit:
  "parseStringChars (quoteUnit c @ rest) = consResult c (parseStringChars rest)"
  by (simp add: quoteUnit_def parse_unicodeEscape unescape_def)

lemma surrogate_raw:
  "isLeadingSurrogate c \<or> isTrailingSurrogate c \<Longrightarrow> c \<noteq> 0x22 \<and> c \<noteq> 0x5C \<and> \<not> c < 0x20"
  by (auto simp add: isLeadingSurrogate_def isTrailingSurrogate_def word_le_nat_alt word_less_nat_alt)

lemma parse_quoteChars:
  "parseStringChars (quoteChars s @ 0x22 # rest) = Some (s, rest)"
proof (induction s rule: quoteChars.induct)
  case 1
  show ?case by simp
next
  case (2 c)
  show ?case by (simp add: parse_quoteUnit consResult_def)
next
  case (3 c d cs)
  show ?case
  proof (cases "isLeadingSurrogate c \<and> isTrailingSurrogate d")
    case True
    then have q: "quoteChars (c # d # cs) = c # d # quoteChars cs"
      by simp
    from True 3 have ih: "parseStringChars (quoteChars cs @ 0x22 # rest) = Some (cs, rest)"
      by simp
    from True surrogate_raw [of c] surrogate_raw [of d] show ?thesis
      by (simp add: q ih consResult_def del: quoteChars.simps)
  next
    case False
    then have q: "quoteChars (c # d # cs) = quoteUnit c @ quoteChars (d # cs)"
      by auto
    from False 3 have ih: "parseStringChars (quoteChars (d # cs) @ 0x22 # rest) = Some (d # cs, rest)"
      by simp
    show ?thesis
      by (simp add: q ih parse_quoteUnit consResult_def del: quoteChars.simps)
  qed
qed

lemma skipWs_keep: "\<not> isJsonWs c \<Longrightarrow> skipWs (c # cs) = c # cs"
  by (simp add: skipWs_def)

lemma parseValue_string:
  "parseValue (Suc n) (0x22 # quoteChars s @ 0x22 # rest) = Some (JString s, rest)"
  by (simp add: skipWs_def isJsonWs_def parse_quoteChars)

lemma parseValue_null: "parseValue (Suc n) (js ''null'' @ rest) = Some (JNull, rest)"
  by (simp add: js_def skipWs_def isJsonWs_def parseLiteral_def stripPrefix_def)

lemma parseValue_true: "parseValue (Suc n) (js ''true'' @ rest) = Some (JBool True, rest)"
  by (simp add: js_def skipWs_def isJsonWs_def parseLiteral_def stripPrefix_def)

lemma parseValue_false: "parseValue (Suc n) (js ''false'' @ rest) = Some (JBool False, rest)"
  by (simp add: js_def skipWs_def isJsonWs_def parseLiteral_def stripPrefix_def)

lemma member_more:
  "parseValue n s = Some (v, 0x2C # later) \<Longrightarrow>
   parseMembers (Suc n) (0x22 # quoteChars k @ 0x22 # 0x3A # s)
     = consResult (k, v) (parseMembers n later)"
  by (simp add: skipWs_def isJsonWs_def parse_quoteChars)

lemma member_last:
  "parseValue n s = Some (v, 0x7D # rest) \<Longrightarrow>
   parseMembers (Suc n) (0x22 # quoteChars k @ 0x22 # 0x3A # s) = Some ([(k, v)], rest)"
  by (simp add: skipWs_def isJsonWs_def parse_quoteChars)

lemma object_value:
  "parseMembers n (0x22 # ds) = Some (ms, r) \<Longrightarrow>
   parseValue (Suc n) (0x7B # 0x22 # ds) = Some (JObject ms, r)"
  by (simp add: skipWs_def isJsonWs_def)

lemma element_more:
  "parseValue n s = Some (v, 0x2C # later) \<Longrightarrow>
   parseElements (Suc n) s = consResult v (parseElements n later)"
  by (simp add: skipWs_def isJsonWs_def)

lemma element_last:
  "parseValue n s = Some (v, 0x5D # rest) \<Longrightarrow> parseElements (Suc n) s = Some ([v], rest)"
  by (simp add: skipWs_def isJsonWs_def)

lemma elements_join:
  assumes val: "\<And>x r n. c \<le> n \<Longrightarrow> parseValue n (f x @ r) = Some (t x, r)"
  shows "xs \<noteq> [] \<Longrightarrow> c + length xs \<le> n \<Longrightarrow>
         parseElements n (joinComma (map f xs) @ 0x5D # rest) = Some (map t xs, rest)"
proof (induction xs arbitrary: n)
  case Nil
  then show ?case by simp
next
  case (Cons x xs)
  from Cons.prems obtain m where n: "n = Suc m" and m: "c + length xs \<le> m"
    by (cases n) auto
  show ?case
  proof (cases xs)
    case Nil
    from m have "parseValue m (f x @ 0x5D # rest) = Some (t x, 0x5D # rest)"
      by (intro val) simp
    then have "parseElements (Suc m) (f x @ 0x5D # rest) = Some ([t x], rest)"
      by (rule element_last)
    with Nil n show ?thesis by simp
  next
    case (Cons y ys)
    let ?later = "joinComma (map f xs) @ 0x5D # rest"
    from m have "parseValue m (f x @ 0x2C # ?later) = Some (t x, 0x2C # ?later)"
      by (intro val) simp
    then have "parseElements (Suc m) (f x @ 0x2C # ?later)
                 = consResult (t x) (parseElements m ?later)"
      by (rule element_more)
    moreover have "parseElements m ?later = Some (map t xs, rest)"
      using Cons m by (intro Cons.IH) simp_all
    ultimately show ?thesis
      using Cons n by (simp add: consResult_def)
  qed
qed

lemma array_value:
  assumes val: "\<And>x r n. c \<le> n \<Longrightarrow> parseValue n (f x @ r) = Some (t x, r)"
    and head: "\<And>x. \<exists>d ds. f x = d # ds \<and> \<not> isJsonWs d \<and> d \<noteq> 0x5D"
  shows "Suc (c + length xs) \<le> n \<Longrightarrow>
         parseValue n (0x5B # joinComma (map f xs) @ 0x5D # rest) = Some (JArray (map t xs), rest)"
proof -
  assume "Suc (c + length xs) \<le> n"
  then obtain m where n: "n = Suc m" and m: "c + length xs \<le> m"
    by (cases n) auto
  show ?thesis
  proof (cases xs)
    case Nil
    with n show ?thesis by (simp add: skipWs_def isJsonWs_def)
  next
    case (Cons y ys)
    from head [of y] obtain d ds where fy: "f y = d # ds" "\<not> isJsonWs d" "d \<noteq> 0x5D"
      by blast
    have el: "parseElements m (joinComma (map f xs) @ 0x5D # rest) = Some (map t xs, rest)"
      using Cons m by (intro elements_join [of c f t] val) simp_all
    obtain tl where shape: "joinComma (map f xs) @ 0x5D # rest = d # tl"
      using Cons fy(1) by (cases ys) simp_all
    from el fy(2,3) show ?thesis
      unfolding n shape by (simp add: skipWs_def isJsonWs_def)
  qed
qed

lemma goal_members:
  "parseMembers (Suc (Suc (Suc (Suc (Suc n)))))
     (0x22 # quoteChars (js ''id'') @ 0x22 # 0x3A # 0x22 # quoteChars (id' g) @ 0x22 #
      0x2C # 0x22 # quoteChars (js ''description'') @ 0x22 # 0x3A #
        0x22 # quoteChars (description g) @ 0x22 #
      0x2C # 0x22 # quoteChars (js ''targetDate'') @ 0x22 # 0x3A #
        (case targetDate g of None \<Rightarrow> js ''null'' | Some d \<Rightarrow> QuoteJSONString d) @
      0x2C # 0x22 # quoteChars (js ''completed'') @ 0x22 # 0x3A #
        (if completed g then js ''true'' else js ''false'') @ 0x7D # rest)
   = Some ([(js ''id'', JString (id' g)),
            (js ''description'', JString (description g)),
            (js ''targetDate'', (case targetDate g of None \<Rightarrow> JNull | Some d \<Rightarrow> JString d)),
            (js ''completed'', JBool (completed g))], rest)"
proof -
  let ?c = "(if completed g then js ''true'' else js ''false'') @ 0x7D # rest"
  let ?m4 = "0x22 # quoteChars (js ''completed'') @ 0x22 # 0x3A # ?c"
  let ?t = "(case targetDate g of None \<Rightarrow> js ''null'' | Some d \<Rightarrow> QuoteJSONString d) @ 0x2C # ?m4"
  let ?m3 = "0x22 # quoteChars (js ''targetDate'') @ 0x22 # 0x3A # ?t"
  let ?d = "0x22 # quoteChars (description g) @ 0x22 # 0x2C # ?m3"
  let ?m2 = "0x22 # quoteChars (js ''description'') @ 0x22 # 0x3A # ?d"
  let ?i = "0x22 # quoteChars (id' g) @ 0x22 # 0x2C # ?m2"
  have v4: "parseValue (Suc n) ?c = Some (JBool (completed g), 0x7D # rest)"
    by (simp only: parseValue_true parseValue_false split: if_split) simp
  have m4: "parseMembers (Suc (Suc n)) ?m4 = Some ([(js ''completed'', JBool (completed g))], rest)"
    using v4 by (rule member_last)
  have v3: "parseValue (Suc (Suc n)) ?t
              = Some ((case targetDate g of None \<Rightarrow> JNull | Some d \<Rightarrow> JString d), 0x2C # ?m4)"
  proof (cases "targetDate g")
    case None
    then show ?thesis by (simp only: parseValue_null option.case)
  next
    case (Some d)
    then show ?thesis
      using parseValue_string [of "Suc n" d "0x2C # ?m4"]
      by (simp only: option.case QuoteJSONString_def append_Cons append_Nil append_assoc)
  qed
  have m3: "parseMembers (Suc (Suc (Suc n))) ?m3
              = consResult (js ''targetDate'', (case targetDate g of None \<Rightarrow> JNull | Some d \<Rightarrow> JString d))
                  (parseMembers (Suc (Suc n)) ?m4)"
    using v3 by (rule member_more)
  have v2: "parseValue (Suc (Suc (Suc n))) ?d = Some (JString (description g), 0x2C # ?m3)"
    by (rule parseValue_string)
  have m2: "parseMembers (Suc (Suc (Suc (Suc n)))) ?m2
              = consResult (js ''description'', JString (description g))
                  (parseMembers (Suc (Suc (Suc n))) ?m3)"
    using v2 by (rule member_more)
  have v1: "parseValue (Suc (Suc (Suc (Suc n)))) ?i = Some (JString (id' g), 0x2C # ?m2)"
    by (rule parseValue_string)
  have m1: "parseMembers (Suc (Suc (Suc (Suc (Suc n))))) (0x22 # quoteChars (js ''id'') @ 0x22 # 0x3A # ?i)
              = consResult (js ''id'', JString (id' g))
                  (parseMembers (Suc (Suc (Suc (Suc n)))) ?m2)"
    using v1 by (rule member_more)
  show ?thesis
    by (simp only: m1 m2 m3 m4 consResult_def option.case prod.case)
qed

lemma stringifyGoal_shape:
  "stringifyGoal g @ rest
     = 0x7B # 0x22 # quoteChars (js ''id'') @ 0x22 # 0x3A # 0x22 # quoteChars (id' g) @ 0x22 #
      0x2C # 0x22 # quoteChars (js ''description'') @ 0x22 # 0x3A #
        0x22 # quoteChars (description g) @ 0x22 #
      0x2C # 0x22 # quoteChars (js ''targetDate'') @ 0x22 # 0x3A #
        (case targetDate g of None \<Rightarrow> js ''null'' | Some d \<Rightarrow> QuoteJSONString d) @
      0x2C # 0x22 # quoteChars (js ''completed'') @ 0x22 # 0x3A #
        (if completed g then js ''true'' else js ''false'') @ 0x7D # rest"
  by (simp add: stringifyGoal_def QuoteJSONString_def)

lemma goal_value:
  assumes "6 \<le> n"
  shows "parseValue n (stringifyGoal g @ rest) = Some (goalTree g, rest)"
proof -
  from assms have n: "n = Suc (Suc (Suc (Suc (Suc (Suc (n - 6))))))"
    by simp
  show ?thesis
    unfolding stringifyGoal_shape goalTree_def
    by (subst n) (rule object_value [OF goal_members])
qed

lemma string_value:
  assumes "1 \<le> n"
  shows "parseValue n (QuoteJSONString s @ rest) = Some (JString s, rest)"
proof -
  from assms have n: "n = Suc (n - 1)"
    by simp
  show ?thesis
    by (subst n) (simp only: QuoteJSONString_def append_Cons append_Nil append_assoc parseValue_string)
qed

lemma goal_head: "\<exists>d ds. stringifyGoal g = d # ds \<and> \<not> isJsonWs d \<and> d \<noteq> 0x5D"
  by (simp add: stringifyGoal_def isJsonWs_def)

lemma string_head: "\<exists>d ds. QuoteJSONString s = d # ds \<and> \<not> isJsonWs d \<and> d \<noteq> 0x5D"
  by (simp add: QuoteJSONString_def isJsonWs_def)

lemma plan_value:
  assumes d: "8 + length (goals sp) + length (subjects sp) \<le> d"
  shows "parseValue (Suc (Suc (Suc (Suc (Suc d))))) (JSON_stringify sp @ rest)
           = Some (planTree sp, rest)"
proof -
  let ?l = "0x22 # quoteChars (lastUpdated sp) @ 0x22 # 0x7D # rest"
  let ?m4 = "0x22 # quoteChars (js ''lastUpdated'') @ 0x22 # 0x3A # ?l"
  let ?s = "0x5B # joinComma (map QuoteJSONString (subjects sp)) @ 0x5D # 0x2C # ?m4"
  let ?m3 = "0x22 # quoteChars (js ''subjects'') @ 0x22 # 0x3A # ?s"
  let ?g = "0x5B # joinComma (map stringifyGoal (goals sp)) @ 0x5D # 0x2C # ?m3"
  let ?m2 = "0x22 # quoteChars (js ''goals'') @ 0x22 # 0x3A # ?g"
  let ?u = "0x22 # quoteChars (userId sp) @ 0x22 # 0x2C # ?m2"
  let ?m1 = "0x22 # quoteChars (js ''userId'') @ 0x22 # 0x3A # ?u"
  from d obtain e where e: "d = Suc e"
    by (cases d) auto
  have v4: "parseValue d ?l = Some (JString (lastUpdated sp), 0x7D # rest)"
    unfolding e by (rule parseValue_string)
  have m4: "parseMembers (Suc d) ?m4 = Some ([(js ''lastUpdated'', JString (lastUpdated sp))], rest)"
    using v4 by (rule member_last)
  have v3: "parseValue (Suc d) ?s = Some (JArray (map JString (subjects sp)), 0x2C # ?m4)"
    using d by (intro array_value [of 1 QuoteJSONString JString] string_value string_head) simp_all
  have m3: "parseMembers (Suc (Suc d)) ?m3
              = consResult (js ''subjects'', JArray (map JString (subjects sp)))
                  (parseMembers (Suc d) ?m4)"
    using v3 by (rule member_more)
  have v2: "parseValue (Suc (Suc d)) ?g = Some (JArray (map goalTree (goals sp)), 0x2C # ?m3)"
    using d by (intro array_value [of 6 stringifyGoal goalTree] goal_value goal_head) simp_all
  have m2: "parseMembers (Suc (Suc (Suc d))) ?m2
              = consResult (js ''goals'', JArray (map goalTree (goals sp)))
                  (parseMembers (Suc (Suc d)) ?m3)"
    using v2 by (rule member_more)
  have v1: "parseValue (Suc (Suc (Suc d))) ?u = Some (JString (userId sp), 0x2C # ?m2)"
    by (rule parseValue_string)
  have m1: "parseMembers (Suc (Suc (Suc (Suc d)))) ?m1
              = consResult (js ''userId'', JString (userId sp))
                  (parseMembers (Suc (Suc (Suc d))) ?m2)"
    using v1 by (rule member_more)
  have ms: "parseMembers (Suc (Suc (Suc (Suc d)))) ?m1
              = Some ([(js ''userId'', JString (userId sp)),
                       (js ''goals'', JArray (map goalTree (goals sp))),
                       (js ''subjects'', JArray (map JString (subjects sp))),
                       (js ''lastUpdated'', JString (lastUpdated sp))], rest)"
    by (simp only: m1 m2 m3 m4 consResult_def option.case prod.case)
  have shape: "JSON_stringify sp @ rest = 0x7B # ?m1"
    by (simp add: JSON_stringify_def QuoteJSONString_def)
  show ?thesis
    unfolding shape planTree_def by (rule object_value [OF ms])
qed

lemma length_joinComma: "(\<forall>x\<in>set xs. x \<noteq> []) \<Longrightarrow> length xs \<le> length (joinComma xs)"
proof (induction xs rule: joinComma.induct)
  case 1
  show ?case by simp
next
  case (2 x)
  then show ?case by (cases x) simp_all
next
  case (3 x y ys)
  then show ?case by simp
qed

lemma length_JSON_stringify:
  "12 + length (goals sp) + length (subjects sp) \<le> length (JSON_stringify sp)"
proof -
  have "length (goals sp) \<le> length (joinComma (map stringifyGoal (goals sp)))"
    using length_joinComma [of "map stringifyGoal (goals sp)"]
    by (simp add: stringifyGoal_def)
  moreover have "length (subjects sp) \<le> length (joinComma (map QuoteJSONString (subjects sp)))"
    using length_joinComma [of "map QuoteJSONString (subjects sp)"]
    by (simp add: QuoteJSONString_def)
  ultimately show ?thesis
    by (simp add: JSON_stringify_def js_def)
qed

lemma JSON_parse_stringify: "JSON_parse (JSON_stringify sp) = Inr (planTree sp)"
proof -
  let ?n = "length (JSON_stringify sp)"
  define d where "d = 2 * ?n - 4"
  have n: "Suc (2 * ?n) = Suc (Suc (Suc (Suc (Suc d))))"
    and d: "8 + length (goals sp) + length (subjects sp) \<le> d"
    using length_JSON_stringify [of sp] by (simp_all add: d_def)
  have "parseValue (Suc (2 * ?n)) (JSON_stringify sp @ []) = Some (planTree sp, [])"
    unfolding n using d by (rule plan_value)
  then show ?thesis
    by (simp add: JSON_parse_def skipWs_def)
qed

lemma asGoal_goalTree: "asGoal (goalTree g) = Some g"
  by (cases "targetDate g")
    (simp_all add: asGoal_def goalTree_def asString_def asNullableString_def asBool_def)

lemma those_asGoal: "those (map (asGoal \<circ> goalTree) gs) = Some gs"
  by (induction gs) (simp_all add: asGoal_goalTree)

lemma those_asString: "those (map (asString \<circ> JString) ss) = Some ss"
  by (induction ss) (simp_all add: asString_def)

lemma asStudyPlan_planTree: "asStudyPlan (planTree sp) = Some sp"
  by (simp add: asStudyPlan_def planTree_def those_asGoal those_asString asString_def)


lemma JSON_stringify_nonempty: "JSON_stringify sp \<noteq> []"
  by (simp add: JSON_stringify_def)

lemma asStudyPlanOrNull_planTree: "asStudyPlanOrNull (planTree sp) = Some (Some sp)"
proof -
  have "asStudyPlanOrNull (planTree sp) = map_option Some (asStudyPlan (planTree sp))"
    by (simp add: asStudyPlanOrNull_def planTree_def)
  then show ?thesis
    by (simp add: asStudyPlan_planTree)
qed

text \<open>
  Claim C8. For every plan, the text that \<open>JSON.stringify\<close> writes parses, and what
  it denotes is the plan: the same \<open>userId\<close>, the same goals in the same order with
  all their fields, the same subjects in the same order, the same \<open>lastUpdated\<close>.
  So, when the storage neither refuses the write nor the read, the save effect stores the
  text under the key of the plan and the load effect of a later mount adopts an equal
  plan.
\<close>

theorem persist_round_trip:
  "map_sum (\<lambda>e. e) asStudyPlan (JSON_parse (JSON_stringify sp)) = Inr (Some sp)
   \<and> (\<not> setItemThrows ls \<and> \<not> getItemThrows ls \<longrightarrow>
        (\<exists>ls'. saveEffect (ls, st\<lparr>studyPlan := Some sp\<rparr>) = (ls', st\<lparr>studyPlan := Some sp\<rparr>)
               \<and> items ls' localStorageKey = Some (JSON_stringify sp)
               \<and> loadOnMount now (ls', st0) = Some (ls', st0\<lparr>studyPlan := Some sp\<rparr>)))"
  by (simp add: JSON_parse_stringify asStudyPlan_planTree saveEffect_def loadOnMount_def
      setItem_def getItem_def truthy_def JSON_stringify_nonempty asStudyPlanOrNull_planTree)

theorem persist_round_trip_witness:
  "\<not> setItemThrows emptyStorage \<and> \<not> getItemThrows emptyStorage
   \<and> saveEffect (emptyStorage, storeA)
       = (emptyStorage\<lparr>items := [localStorageKey \<mapsto> JSON_stringify planA]\<rparr>, storeA)
   \<and> loadOnMount (js ''t1'')
         (emptyStorage\<lparr>items := [localStorageKey \<mapsto> JSON_stringify planA]\<rparr>, initialStore)
       = Some (emptyStorage\<lparr>items := [localStorageKey \<mapsto> JSON_stringify planA]\<rparr>, storeA)"
  using persist_round_trip [of planA emptyStorage initialStore "js ''t1''" initialStore]
  by (simp add: emptyStorage_def storeA_def saveEffect_def setItem_def)

section \<open>Loading on mount\<close>

lemma parse_oops: "JSON_parse (js ''{oops'') = Inl SyntaxError"
  by code_simp

lemma oops_nonempty: "js ''{oops'' \<noteq> []"
  by (simp add: js_def)

text \<open>
  Claim C2, as amended. On mount, when the storage has no text for the plan (none, or the
  empty string), the component builds the default plan (user "localUser123", no goals, no
  subjects, \<open>lastUpdated\<close> the current time), adopts it and writes it to the storage
  at once; when that write throws, the default plan stays in memory and the load-error
  string is set. When the stored text does not parse, or reading the storage throws, no
  default plan is built and nothing is written: the plan in memory stays as it was
  (\<open>null\<close> on mount) and the load-error string is set. In each of these cases the
  effect returns.
\<close>

theorem load_on_mount:
  "defaultPlan now = \<lparr>userId = js ''localUser123'', goals = [], subjects = [], lastUpdated = now\<rparr>
   \<and> (\<not> getItemThrows ls \<and> truthy (items ls localStorageKey) = None \<and> \<not> setItemThrows ls \<longrightarrow>
        loadOnMount now (ls, st)
          = Some (ls\<lparr>items := (items ls)(localStorageKey \<mapsto> JSON_stringify (defaultPlan now))\<rparr>,
                  st\<lparr>studyPlan := Some (defaultPlan now)\<rparr>))
   \<and> (\<not> getItemThrows ls \<and> truthy (items ls localStorageKey) = None \<and> setItemThrows ls \<longrightarrow>
        loadOnMount now (ls, st)
          = Some (ls, st\<lparr>studyPlan := Some (defaultPlan now), studyPlannerError := Some loadError\<rparr>))
   \<and> (\<not> getItemThrows ls \<and> truthy (items ls localStorageKey) = Some text
        \<and> JSON_parse text = Inl e \<longrightarrow>
        loadOnMount now (ls, st) = Some (ls, st\<lparr>studyPlannerError := Some loadError\<rparr>))
   \<and> (getItemThrows ls \<longrightarrow>
        loadOnMount now (ls, st) = Some (ls, st\<lparr>studyPlannerError := Some loadError\<rparr>))"
  by (simp add: loadOnMount_def getItem_def setItem_def defaultPlan_def fixedUserId_def Let_def)

theorem load_on_mount_witness:
  "\<not> getItemThrows emptyStorage \<and> truthy (items emptyStorage localStorageKey) = None
   \<and> \<not> setItemThrows emptyStorage
   \<and> loadOnMount (js ''t1'') (emptyStorage, initialStore)
       = Some (emptyStorage\<lparr>items := [localStorageKey \<mapsto> JSON_stringify (defaultPlan (js ''t1''))]\<rparr>,
               initialStore\<lparr>studyPlan := Some (defaultPlan (js ''t1''))\<rparr>)
   \<and> setItemThrows fullStorage \<and> \<not> getItemThrows fullStorage
   \<and> truthy (items fullStorage localStorageKey) = None
   \<and> loadOnMount (js ''t1'') (fullStorage, initialStore)
       = Some (fullStorage, initialStore\<lparr>studyPlan := Some (defaultPlan (js ''t1'')),
                                          studyPlannerError := Some loadError\<rparr>)
   \<and> \<not> getItemThrows corruptStorage
   \<and> truthy (items corruptStorage localStorageKey) = Some (js ''{oops'')
   \<and> JSON_parse (js ''{oops'') = Inl SyntaxError
   \<and> loadOnMount (js ''t1'') (corruptStorage, initialStore)
       = Some (corruptStorage, initialStore\<lparr>studyPlannerError := Some loadError\<rparr>)
   \<and> getItemThrows deniedStorage
   \<and> loadOnMount (js ''t1'') (deniedStorage, initialStore)
       = Some (deniedStorage, initialStore\<lparr>studyPlannerError := Some loadError\<rparr>)"
proof -
  have e: "\<not> getItemThrows emptyStorage" "truthy (items emptyStorage localStorageKey) = None"
    "\<not> setItemThrows emptyStorage"
    by (simp_all add: emptyStorage_def truthy_def)
  have f: "setItemThrows fullStorage" "\<not> getItemThrows fullStorage"
    "truthy (items fullStorage localStorageKey) = None"
    by (simp_all add: fullStorage_def truthy_def)
  have c: "\<not> getItemThrows corruptStorage"
    "truthy (items corruptStorage localStorageKey) = Some (js ''{oops'')"
    by (simp_all add: corruptStorage_def truthy_def oops_nonempty)
  have d: "getItemThrows deniedStorage"
    by (simp add: deniedStorage_def)
  have "emptyStorage\<lparr>items := (items emptyStorage)(localStorageKey \<mapsto> JSON_stringify (defaultPlan (js ''t1'')))\<rparr>
        = emptyStorage\<lparr>items := [localStorageKey \<mapsto> JSON_stringify (defaultPlan (js ''t1''))]\<rparr>"
    by (simp add: emptyStorage_def)
  with e f c d parse_oops
    load_on_mount [of "js ''t1''" emptyStorage initialStore]
    load_on_mount [of "js ''t1''" fullStorage initialStore]
    load_on_mount [of "js ''t1''" corruptStorage initialStore "js ''{oops''" SyntaxError]
    load_on_mount [of "js ''t1''" deniedStorage initialStore]
  show ?thesis
    by simp
qed

text \<open>
  The claim as it was stated fails: with the corrupt text "{oops" in the storage, the
  plan stays \<open>null\<close> and the storage keeps the corrupt text.
\<close>

theorem corrupt_storage_counterexample:
  "items corruptStorage localStorageKey = Some (js ''{oops'')
   \<and> JSON_parse (js ''{oops'') = Inl SyntaxError
   \<and> studyPlan initialStore = None
   \<and> loadOnMount (js ''t1'') (corruptStorage, initialStore)
       = Some (corruptStorage, initialStore\<lparr>studyPlannerError := Some loadError\<rparr>)"
  by (simp add: loadOnMount_def getItem_def corruptStorage_def truthy_def parse_oops
      oops_nonempty initialStore_def)

end
